theory Spec2Isabelle
  imports Main "HOL-Library.Sublist" "HOL-Library.Multiset"
begin

section \<open>Errors raised by the task\<close>

text \<open>
  The task \<^verbatim>\<open>tasks/move-granules/index.js\<close> throws \<^verbatim>\<open>DuplicateFile\<close> and
  \<^verbatim>\<open>InvalidArgument\<close> itself. A \<^verbatim>\<open>TypeError\<close> is what the JavaScript runtime
  throws on a property access or \<^verbatim>\<open>Object.keys\<close> of \<^verbatim>\<open>undefined\<close>; an
  \<^verbatim>\<open>S3Error\<close> is a failure of the storage collaborator, a \<^verbatim>\<open>TemplateError\<close>
  one of the path-template helper. Every throw is a branch \<open>Inl e\<close> of the model.
\<close>

datatype error =
    DuplicateFile string
  | InvalidArgument string
  | TypeError string
  | S3Error string
  | TemplateError string

section \<open>Strings\<close>

text \<open>
  \<^verbatim>\<open>str.match('literal')\<close> with a pattern free of regex metacharacters is truthy
  exactly when the literal occurs somewhere in \<^verbatim>\<open>str\<close>.
\<close>

fun matchLiteral :: "string \<Rightarrow> string \<Rightarrow> bool" where
  "matchLiteral [] pat = (pat = [])"
| "matchLiteral (c # cs) pat = (prefix pat (c # cs) \<or> matchLiteral cs pat)"

text \<open>\<^verbatim>\<open>/.*\.cmr\.xml$/\<close>: the string ends with \<^verbatim>\<open>.cmr.xml\<close>.\<close>

definition cmrFileFormat :: "string \<Rightarrow> bool" where
  "cmrFileFormat s = prefix (rev ''.cmr.xml'') (rev s)"

section \<open>Data model\<close>

text \<open>
  A parsed metadata tree, as \<^verbatim>\<open>xml2js\<close> yields it: strings, arrays and objects. An
  object is the list of its own properties in insertion order; an array has its
  elements and, as every JavaScript array may, named properties of its own.
\<close>

datatype jv = JStr string | JArr "jv list" "(string \<times> jv) list" | JObj "(string \<times> jv) list"

text \<open>\<^verbatim>\<open>obj[k] = v\<close>: an existing property keeps its place, a new one goes last.\<close>

fun setProp :: "'k \<Rightarrow> 'v \<Rightarrow> ('k \<times> 'v) list \<Rightarrow> ('k \<times> 'v) list" where
  "setProp k v [] = [(k, v)]"
| "setProp k v (p # ps) = (if fst p = k then (k, v) # ps else p # setProp k v ps)"

text \<open>
  \<^verbatim>\<open>Object.keys\<close> does not list the properties in insertion order throughout: the
  keys that are array indices (a decimal numeral without a leading zero, below
  4294967295) come first, in ascending order, and the other keys follow in
  insertion order.
\<close>

definition isDigit :: "char \<Rightarrow> bool" where
  "isDigit c = (c \<in> set ''0123456789'')"

definition digitValue :: "char \<Rightarrow> nat" where
  "digitValue c = length (takeWhile (\<lambda>d. d \<noteq> c) ''0123456789'')"

definition decimal :: "string \<Rightarrow> nat" where
  "decimal k = foldl (\<lambda>n c. 10 * n + digitValue c) 0 k"

definition arrayIndex :: "string \<Rightarrow> nat option" where
  "arrayIndex k =
     (case k of
        [] \<Rightarrow> None
      | c # cs \<Rightarrow>
          if list_all isDigit k \<and> (c \<noteq> CHR ''0'' \<or> cs = []) \<and> decimal k < 4294967295
          then Some (decimal k) else None)"

definition ownKeysOrder :: "(string \<times> 'v) list \<Rightarrow> (string \<times> 'v) list" where
  "ownKeysOrder ps =
     sort_key (\<lambda>p. decimal (fst p)) (filter (\<lambda>p. arrayIndex (fst p) \<noteq> None) ps)
       @ filter (\<lambda>p. arrayIndex (fst p) = None) ps"

text \<open>
  The own properties of a value as \<^verbatim>\<open>Object.keys\<close> lists them, with their values:
  those of an object; the elements of an array under their indices, then its named
  properties; the characters of a string under their indices.
\<close>

fun showNat :: "nat \<Rightarrow> string" where
  "showNat n =
     (if n < 10 then [''0123456789'' ! n]
      else showNat (n div 10) @ [''0123456789'' ! (n mod 10)])"

definition indexed :: "'v list \<Rightarrow> (string \<times> 'v) list" where
  "indexed xs = zip (map showNat [0..<length xs]) xs"

definition ownEntries :: "jv \<Rightarrow> (string \<times> jv) list" where
  "ownEntries v =
     (case v of
        JObj ps \<Rightarrow> ownKeysOrder ps
      | JArr xs ps \<Rightarrow> indexed xs @ ownKeysOrder ps
      | JStr cs \<Rightarrow> indexed (map (\<lambda>c. JStr [c]) cs))"

text \<open>
  \<^verbatim>\<open>v[k]\<close> for a key \<^verbatim>\<open>k\<close> that is a name (not an index, not \<^verbatim>\<open>length\<close>), as
  \<^verbatim>\<open>get(v, 'a.b')\<close> reads it along a path: undefined on a string.
\<close>

definition getProp :: "string \<Rightarrow> jv \<Rightarrow> jv option" where
  "getProp k v =
     (case v of
        JObj ps \<Rightarrow> map_of ps k
      | JArr xs ps \<Rightarrow> map_of ps k
      | JStr cs \<Rightarrow> None)"


text \<open>An entry of the bucket map: \<^verbatim>\<open>{ name, type }\<close>.\<close>

record bucket =
  bkt_name :: string
  bkt_type :: string

text \<open>
  The bucket map is a plain JavaScript object: \<^verbatim>\<open>buckets[k]\<close> is the entry under an
  own key \<^verbatim>\<open>k\<close>, and otherwise what \<^verbatim>\<open>Object.prototype\<close> has under \<^verbatim>\<open>k\<close>:
  its methods (functions, whose \<^verbatim>\<open>name\<close> is the key, and \<^verbatim>\<open>Object\<close> for
  \<^verbatim>\<open>constructor\<close>), the prototype object itself under \<^verbatim>\<open>__proto__\<close>, and
  undefined for every other key. A function has a \<^verbatim>\<open>name\<close> and no \<^verbatim>\<open>type\<close>; the
  prototype object has neither.
\<close>

datatype bucketRef = BucketEntry bucket | InheritedFunction string

datatype lookup = Missing | Found bucketRef | FoundPrototype

definition objectPrototypeMethods :: "string list" where
  "objectPrototypeMethods =
     [''hasOwnProperty'', ''isPrototypeOf'', ''propertyIsEnumerable'', ''toLocaleString'',
      ''toString'', ''valueOf'', ''__defineGetter__'', ''__defineSetter__'',
      ''__lookupGetter__'', ''__lookupSetter__'']"

definition inheritedKey :: "string \<Rightarrow> bool" where
  "inheritedKey k = (k = ''constructor'' \<or> k \<in> set objectPrototypeMethods \<or> k = ''__proto__'')"

definition bucketsLookup :: "(string \<times> bucket) list \<Rightarrow> string \<Rightarrow> lookup" where
  "bucketsLookup buckets k =
     (case map_of buckets k of
        Some b \<Rightarrow> Found (BucketEntry b)
      | None \<Rightarrow>
          if k = ''constructor'' then Found (InheritedFunction ''Object'')
          else if k \<in> set objectPrototypeMethods then Found (InheritedFunction k)
          else if k = ''__proto__'' then FoundPrototype
          else Missing)"

definition bucketRefName :: "bucketRef \<Rightarrow> string" where
  "bucketRefName r = (case r of BucketEntry b \<Rightarrow> bkt_name b | InheritedFunction n \<Rightarrow> n)"

text \<open>
  A granule file as the task receives it (from \<^verbatim>\<open>input_granules\<close> or from
  \<^verbatim>\<open>fileObjectFromS3URI\<close>): its \<^verbatim>\<open>bucket\<close> is a bucket name. Optional
  properties are \<open>option\<close>s; \<open>None\<close> is \<^verbatim>\<open>undefined\<close>.
\<close>

record stagedFile =
  sf_name :: string
  sf_bucket :: string
  sf_filename :: string
  sf_url_path :: "string option"
  sf_fileStagingDir :: "string option"
  sf_duplicate_found :: "bool option"
  sf_fileSize :: "nat option"

text \<open>
  A granule file once its destination is resolved, and as the task returns it. Its
  \<^verbatim>\<open>bucket\<close> is what \<^verbatim>\<open>updateGranuleMetadata\<close> read from the bucket map
  (\<open>'b = bucketRef\<close>); where the code reads \<^verbatim>\<open>file.bucket.type\<close> it is an entry of
  the map (\<open>'b = bucket\<close>) or the read throws; in the output it is collapsed to its
  name (\<open>'b = string\<close>).
\<close>

record 'b gfile =
  name :: string
  bucket :: 'b
  filepath :: string
  filename :: string
  url_path :: "string option"
  fileStagingDir :: "string option"
  duplicate_found :: "bool option"
  fileSize :: "nat option"

definition rebucket :: "('a \<Rightarrow> 'b) \<Rightarrow> 'a gfile \<Rightarrow> 'b gfile" where
  "rebucket h f =
     \<lparr>name = name f,
      bucket = h (bucket f),
      filepath = filepath f,
      filename = filename f,
      url_path = url_path f,
      fileStagingDir = fileStagingDir f,
      duplicate_found = duplicate_found f,
      fileSize = fileSize f\<rparr>"

record 'f granule =
  granuleId :: string
  files :: "'f list"

text \<open>A rule of \<^verbatim>\<open>collection.files\<close>, and the collection configuration.\<close>

record collectionFile =
  cf_regex :: string
  cf_bucket :: string
  cf_url_path :: "string option"

record collection =
  coll_files :: "collectionFile list"
  coll_url_path :: "string option"
  coll_duplicateHandling :: "string option"

text \<open>A catalog metadata file, as \<^verbatim>\<open>getCmrFiles\<close> yields it.\<close>

record cmrFile =
  cmr_filename :: string
  cmr_granuleId :: string
  metadataObject :: jv
  s3Tags :: "(string \<times> string) list"
  metadata :: string

text \<open>
  The task's configuration and its event. \<open>ev_collection\<close> is the property
  \<^verbatim>\<open>event.collection\<close>, at the top level of the event;
  \<open>forceDuplicateOverwrite\<close> is
  \<^verbatim>\<open>event.cumulus_config.cumulus_context.forceDuplicateOverwrite\<close>.
\<close>

record config =
  cfg_bucket :: string
  cfg_buckets :: "(string \<times> bucket) list"
  granuleIdExtraction :: "string option"
  input_granules :: "stagedFile granule list option"
  distribution_endpoint :: string
  cfg_collection :: collection
  moveStagedFiles :: "bool option"
  cfg_duplicateHandling :: "string option"

record event =
  ev_config :: "config option"
  ev_collection :: "collection option"
  forceDuplicateOverwrite :: "bool option"
  ev_input :: "string list"

section \<open>The object store\<close>

text \<open>
  Modelled from the spec: the storage collaborator and the helpers of
  \<^verbatim>\<open>@cumulus/common/aws\<close> and \<^verbatim>\<open>@cumulus/ingest/granule\<close> built on it
  (\<^verbatim>\<open>s3ObjectExists\<close>, \<^verbatim>\<open>checksumS3Objects\<close>, \<^verbatim>\<open>deleteS3Object\<close>,
  \<^verbatim>\<open>promiseS3Upload\<close>, \<^verbatim>\<open>moveGranuleFile\<close>, \<^verbatim>\<open>renameS3FileWithTimestamp\<close>,
  \<^verbatim>\<open>getRenamedS3File\<close>, \<^verbatim>\<open>buildS3Uri\<close>) are not part of the sources at hand.
  The spec lists the operations consumed: object-exists check, move/copy with optional
  ACL, delete, checksum of an object, list objects by prefix, upload with tags.

  The store is an association list from (bucket, key) to objects; the first entry of a
  location is the object stored there. A list, so that listing by prefix is computable.
\<close>

record s3object =
  body :: string
  acl :: "string option"
  tagging :: string

type_synonym s3loc = "string \<times> string"
type_synonym s3 = "(s3loc \<times> s3object) list"

definition s3get :: "s3 \<Rightarrow> s3loc \<Rightarrow> s3object option" where
  "s3get s loc = map_of s loc"

text \<open>Modelled from the spec: \<^verbatim>\<open>s3ObjectExists\<close>, the "read-only probe" of a location.\<close>

definition s3ObjectExists :: "s3 \<Rightarrow> s3loc \<Rightarrow> bool" where
  "s3ObjectExists s loc = (s3get s loc \<noteq> None)"

text \<open>
  Modelled from the spec: \<^verbatim>\<open>deleteS3Object\<close>. Deleting an absent object succeeds
  and changes nothing.
\<close>

definition deleteS3Object :: "s3 \<Rightarrow> s3loc \<Rightarrow> s3" where
  "deleteS3Object s loc = filter (\<lambda>e. fst e \<noteq> loc) s"

text \<open>
  Modelled from the spec: writing an object (an upload, the copy of a move) replaces
  what the location held.
\<close>

definition s3put :: "s3 \<Rightarrow> s3loc \<Rightarrow> s3object \<Rightarrow> s3" where
  "s3put s loc obj = (loc, obj) # deleteS3Object s loc"

text \<open>
  An asynchronous call either rejects (\<open>Inl\<close>) or resolves (\<open>Inr\<close>), and leaves a
  store behind. \<open>await\<close> sequences two calls: a rejection skips the rest.
  \<open>andThen\<close> is the same for code that does not touch the store.
\<close>

type_synonym 'a io = "(error + 'a) \<times> s3"

definition await :: "'a io \<Rightarrow> ('a \<Rightarrow> s3 \<Rightarrow> 'b io) \<Rightarrow> 'b io" where
  "await r k = (case r of (Inl e, s) \<Rightarrow> (Inl e, s) | (Inr x, s) \<Rightarrow> k x s)"

definition andThen :: "error + 'a \<Rightarrow> ('a \<Rightarrow> error + 'b) \<Rightarrow> error + 'b" where
  "andThen r k = (case r of Inl e \<Rightarrow> Inl e | Inr x \<Rightarrow> k x)"

text \<open>
  A loop whose body may throw stops at the first throw.
\<close>

fun forEach :: "('a \<Rightarrow> error + 'b) \<Rightarrow> 'a list \<Rightarrow> error + 'b list" where
  "forEach f [] = Inr []"
| "forEach f (x # xs) = andThen (f x) (\<lambda>y. andThen (forEach f xs) (\<lambda>ys. Inr (y # ys)))"

text \<open>
  \<^verbatim>\<open>Promise.all(xs.map(f))\<close> has started every call before any of them settles: a
  call that rejects does not stop the others, which go on and change the store. The
  calls are run here to completion one after the other, in the order of the array, each
  on the store the one before has left; that is one of the schedules the runtime
  allows, and the other interleavings of the calls at their \<^verbatim>\<open>await\<close> points are not
  modelled. The result is the list of the values when every call resolves, and
  otherwise the first rejection of this schedule; the store is the one left when all
  the calls have settled.
\<close>

definition settle :: "error + 'b \<Rightarrow> error + 'b list \<Rightarrow> error + 'b list" where
  "settle r rs =
     (case r of
        Inl e \<Rightarrow> Inl e
      | Inr y \<Rightarrow> (case rs of Inl e \<Rightarrow> Inl e | Inr ys \<Rightarrow> Inr (y # ys)))"

fun promiseAll :: "('a \<Rightarrow> s3 \<Rightarrow> 'b io) \<Rightarrow> 'a list \<Rightarrow> s3 \<Rightarrow> 'b list io" where
  "promiseAll f [] s = (Inr [], s)"
| "promiseAll f (x # xs) s =
     (let first = f x s;
          others = promiseAll f xs (snd first)
      in (settle (fst first) (fst others), snd others))"

text \<open>
  The helpers of the task that are not part of the sources at hand, and the library
  functions it calls, are parameters of the model:
  \<^item> \<open>checksum\<close>: the CKSUM of an object's content (\<^verbatim>\<open>checksumS3Objects\<close>);
  \<^item> \<open>versionMarker\<close>, \<open>versionSuffix\<close>: what \<^verbatim>\<open>renameS3FileWithTimestamp\<close> appends
    to a key, the mark that opens a version suffix and the timestamp read from the clock;
  \<^item> \<open>basename\<close>, \<open>pathJoin\<close>: \<^verbatim>\<open>path.basename\<close>, \<^verbatim>\<open>path.join\<close>;
  \<^item> \<open>urljoin\<close>: the \<^verbatim>\<open>url-join\<close> package;
  \<^item> \<open>regexMatch name regex\<close>: whether \<^verbatim>\<open>name.match(regex)\<close> is truthy;
  \<^item> \<open>unversionFilename\<close>: strips a version suffix from a file name;
  \<^item> \<open>urlPathTemplate\<close>: expands a path template over the file, the granule and the
    catalog metadata, or throws;
  \<^item> \<open>getGranuleId\<close>, \<open>getCmrFiles\<close> (which reads the store), \<open>parseS3Uri\<close>;
  \<^item> \<open>buildObject\<close>: the \<^verbatim>\<open>xml2js\<close> builder;
  \<^item> \<open>s3TagSetToQueryString\<close>: the tag set of an object as a query string.
\<close>

record externals =
  checksum :: "string \<Rightarrow> nat"
  versionMarker :: string
  versionSuffix :: string
  basename :: "string \<Rightarrow> string"
  pathJoin :: "string \<Rightarrow> string \<Rightarrow> string"
  urljoin :: "string \<Rightarrow> string \<Rightarrow> string"
  regexMatch :: "string \<Rightarrow> string \<Rightarrow> bool"
  unversionFilename :: "string \<Rightarrow> string"
  urlPathTemplate :: "string \<Rightarrow> stagedFile \<Rightarrow> stagedFile granule \<Rightarrow> jv \<Rightarrow> error + string"
  getGranuleId :: "string \<Rightarrow> string \<Rightarrow> error + string"
  getCmrFiles :: "s3 \<Rightarrow> string list \<Rightarrow> string \<Rightarrow> error + cmrFile list"
  parseS3Uri :: "string \<Rightarrow> error + s3loc"
  buildObject :: "jv \<Rightarrow> string"
  s3TagSetToQueryString :: "(string \<times> string) list \<Rightarrow> string"

text \<open>
  Modelled from the spec: \<^verbatim>\<open>checksumS3Objects\<close>, the "checksum-of-object"; it fails
  when there is no object to read.
\<close>

definition checksumS3Objects :: "externals \<Rightarrow> s3 \<Rightarrow> s3loc \<Rightarrow> nat io" where
  "checksumS3Objects lib s loc =
     (case s3get s loc of
        None \<Rightarrow> (Inl (S3Error ''NoSuchKey''), s)
      | Some obj \<Rightarrow> (Inr (checksum lib (body obj)), s))"

text \<open>
  Modelled from the spec: \<^verbatim>\<open>moveGranuleFile\<close>, "copy+verify+delete-source" with an
  optional ACL for the copy. It fails, changing nothing, when the source does not
  exist.
\<close>

definition moveGranuleFile :: "s3 \<Rightarrow> s3loc \<Rightarrow> s3loc \<Rightarrow> string option \<Rightarrow> unit io" where
  "moveGranuleFile s source target options =
     (case s3get s source of
        None \<Rightarrow> (Inl (S3Error ''NoSuchKey''), s)
      | Some obj \<Rightarrow> (Inr (), deleteS3Object (s3put s target (obj\<lparr>acl := options\<rparr>)) source))"

text \<open>
  Modelled from the spec: \<^verbatim>\<open>renameS3FileWithTimestamp\<close>, "rename the existing
  destination object by appending a timestamp suffix (preserving it as a new sibling)".
  The renamed key is the key, the version mark and the timestamp. For the sibling to be
  new, a key that some object already has is passed over and the clock read again: the
  later readings are written as the first one followed by \<open>i\<close> ticks, strings that
  differ from each other. One more candidate than the store has objects is enough to
  find a free key.
\<close>

definition renameCandidates :: "externals \<Rightarrow> s3 \<Rightarrow> string \<Rightarrow> string list" where
  "renameCandidates lib s key =
     map (\<lambda>i. key @ versionMarker lib @ versionSuffix lib @ replicate i (CHR ''+''))
       [0..<Suc (length s)]"

definition renamedKey :: "externals \<Rightarrow> s3 \<Rightarrow> s3loc \<Rightarrow> string" where
  "renamedKey lib s loc =
     (case find (\<lambda>k. s3get s (fst loc, k) = None) (renameCandidates lib s (snd loc)) of
        Some k \<Rightarrow> k
      | None \<Rightarrow> snd loc @ versionMarker lib @ versionSuffix lib)"

definition renameS3FileWithTimestamp :: "externals \<Rightarrow> s3 \<Rightarrow> s3loc \<Rightarrow> unit io" where
  "renameS3FileWithTimestamp lib s loc =
     moveGranuleFile s loc (fst loc, renamedKey lib s loc) None"

text \<open>
  Modelled from the spec: \<^verbatim>\<open>getRenamedS3File\<close>, "All renamed siblings discovered at
  that key prefix are returned", found by "list-objects-by-prefix". A renamed sibling
  is an object of the same bucket whose key starts with the destination key and the
  version mark; the object at the destination key itself is not one. Each entry is
  \<^verbatim>\<open>{ Bucket, Key, fileSize }\<close>. The spec gives the listing no order; it is listed
  here in the order of the association list, and the theorem on the version policy
  compares listings as multisets.
\<close>

record renamed =
  Bucket :: string
  Key :: string
  rn_fileSize :: nat

definition isSibling :: "externals \<Rightarrow> s3loc \<Rightarrow> s3loc \<Rightarrow> bool" where
  "isSibling lib target loc =
     (fst loc = fst target \<and> prefix (snd target @ versionMarker lib) (snd loc)
      \<and> snd loc \<noteq> snd target)"

definition listing :: "s3loc \<times> s3object \<Rightarrow> renamed" where
  "listing e = \<lparr>Bucket = fst (fst e), Key = snd (fst e), rn_fileSize = length (body (snd e))\<rparr>"

definition getRenamedS3File :: "externals \<Rightarrow> s3 \<Rightarrow> s3loc \<Rightarrow> renamed list" where
  "getRenamedS3File lib s target = map listing (filter (\<lambda>e. isSibling lib target (fst e)) s)"

text \<open>
  Modelled from the spec: \<^verbatim>\<open>buildS3Uri\<close>, "destination URI =
  scheme://bucket.name/key".
\<close>

definition buildS3Uri :: "string \<Rightarrow> string \<Rightarrow> string" where
  "buildS3Uri b k = ''s3://'' @ b @ ''/'' @ k"

section \<open>Merging the staged files into the granules\<close>

text \<open>JavaScript truthiness of an optional string: defined and not empty.\<close>

definition truthy :: "string option \<Rightarrow> bool" where
  "truthy v = (case v of None \<Rightarrow> False | Some x \<Rightarrow> x \<noteq> [])"

fun foldE :: "('a \<Rightarrow> 'b \<Rightarrow> error + 'b) \<Rightarrow> 'a list \<Rightarrow> 'b \<Rightarrow> error + 'b" where
  "foldE f [] acc = Inr acc"
| "foldE f (x # xs) acc = andThen (f x acc) (foldE f xs)"

definition fileObjectFromS3URI :: "externals \<Rightarrow> string \<Rightarrow> error + stagedFile" where
  "fileObjectFromS3URI lib s3URI =
     andThen (parseS3Uri lib s3URI) (\<lambda>uriParsed.
       Inr \<lparr>sf_name = basename lib s3URI,
            sf_bucket = fst uriParsed,
            sf_filename = s3URI,
            sf_url_path = None,
            sf_fileStagingDir = None,
            sf_duplicate_found = None,
            sf_fileSize = None\<rparr>)"

text \<open>
  The two hashes of \<^verbatim>\<open>addInputFilesToGranules\<close>, plain objects held as the lists of
  their own properties, and the body of its second loop. A key that the hashes do not
  have as their own may still be one that \<^verbatim>\<open>Object.prototype\<close> has: then
  \<^verbatim>\<open>filesHash[f]\<close> is truthy, and \<^verbatim>\<open>granulesHash[granuleId]\<close> is a value without
  \<^verbatim>\<open>files\<close>. \<^verbatim>\<open>granulesHash[granuleId].files\<close> is evaluated before the argument
  of \<^verbatim>\<open>push\<close>, so an unknown granule id throws before the URI is parsed.
\<close>

definition granulesHashOf :: "stagedFile granule list \<Rightarrow> (string \<times> stagedFile granule) list" where
  "granulesHashOf granules = foldl (\<lambda>h g. setProp (granuleId g) g h) [] granules"

definition filesHashOf :: "stagedFile granule list \<Rightarrow> (string \<times> string) list" where
  "filesHashOf granules =
     foldl (\<lambda>h g. foldl (\<lambda>h' f. setProp (sf_filename f) (granuleId g) h') h (files g)) [] granules"

definition addInputFile ::
  "externals \<Rightarrow> string \<Rightarrow> (string \<times> string) list \<Rightarrow> string
     \<Rightarrow> (string \<times> stagedFile granule) list \<Rightarrow> error + (string \<times> stagedFile granule) list" where
  "addInputFile lib regex filesHash f granulesHash =
     (if f \<noteq> [] \<and> \<not> (case map_of filesHash f of
                          None \<Rightarrow> inheritedKey f
                        | Some gid \<Rightarrow> gid \<noteq> []) then
        andThen (getGranuleId lib f regex) (\<lambda>gid.
          case map_of granulesHash gid of
            None \<Rightarrow>
              if inheritedKey gid then Inl (TypeError ''Cannot read property push of undefined'')
              else Inl (TypeError ''Cannot read property files of undefined'')
          | Some g \<Rightarrow>
              andThen (fileObjectFromS3URI lib f) (\<lambda>fo.
                Inr (setProp gid (g\<lparr>files := files g @ [fo]\<rparr>) granulesHash)))
      else Inr granulesHash)"

definition addInputFilesToGranules ::
  "externals \<Rightarrow> string list \<Rightarrow> stagedFile granule list \<Rightarrow> string
     \<Rightarrow> error + (string \<times> stagedFile granule) list" where
  "addInputFilesToGranules lib input granules regex =
     foldE (addInputFile lib regex (filesHashOf granules)) input (granulesHashOf granules)"

section \<open>Resolving destinations: \<^verbatim>\<open>validateMatch\<close>, \<^verbatim>\<open>updateGranuleMetadata\<close>\<close>

fun joinWith :: "string \<Rightarrow> string list \<Rightarrow> string" where
  "joinWith sep [] = []"
| "joinWith sep [x] = x"
| "joinWith sep (x # y # ys) = x @ sep @ joinWith sep (y # ys)"

text \<open>
  \<^verbatim>\<open>${file}\<close> interpolates an object, which prints as \<^verbatim>\<open>[object Object]\<close>.
  \<^verbatim>\<open>!buckets[k]\<close> holds when \<^verbatim>\<open>buckets[k]\<close> is undefined: an entry of the map,
  a function and an object are all truthy.
\<close>

definition validateMatch :: "collectionFile list \<Rightarrow> (string \<times> bucket) list \<Rightarrow> error + unit" where
  "validateMatch match buckets =
     (if length match > 1 then
        Inl (InvalidArgument ''File ([object Object]) matched more than one collection.regexp.'')
      else if length match = 0 then
        Inl (InvalidArgument ''File ([object Object]) did not match any collection.regexp.'')
      else
        case match of
          [] \<Rightarrow> Inl (TypeError ''Cannot read property bucket of undefined'')
        | m # _ \<Rightarrow>
            if bucketsLookup buckets (cf_bucket m) = Missing then
              Inl (InvalidArgument (''Collection config specifies a bucket key of '' @ cf_bucket m
                     @ '', but the configured bucket keys are: ''
                     @ joinWith '', '' (map fst (ownKeysOrder buckets))))
            else Inr ())"

text \<open>\<^verbatim>\<open>fileSpecs.filter((cf) => unversionFilename(file.name).match(cf.regex))\<close>\<close>

definition matchingRules :: "externals \<Rightarrow> collectionFile list \<Rightarrow> stagedFile \<Rightarrow> collectionFile list" where
  "matchingRules lib fileSpecs f =
     filter (\<lambda>cf. regexMatch lib (unversionFilename lib (sf_name f)) (cf_regex cf)) fileSpecs"

text \<open>
  \<^verbatim>\<open>a || b\<close> is \<^verbatim>\<open>a\<close> when \<^verbatim>\<open>a\<close> is truthy and \<^verbatim>\<open>b\<close> otherwise;
  \<^verbatim>\<open>file.url_path || match[0].url_path || collection.url_path || ''\<close> groups to the
  left and ends in a string.
\<close>

definition jsOr :: "string option \<Rightarrow> string option \<Rightarrow> string option" where
  "jsOr a b = (if truthy a then a else b)"

definition URLPathTemplate :: "string option \<Rightarrow> string option \<Rightarrow> string option \<Rightarrow> string" where
  "URLPathTemplate file_url_path match_url_path collection_url_path =
     (case jsOr (jsOr (jsOr file_url_path match_url_path) collection_url_path) (Some []) of
        None \<Rightarrow> []
      | Some t \<Rightarrow> t)"

text \<open>
  \<^verbatim>\<open>cmrFile ? cmrFile.metadataObject : {}\<close>, for the first catalog file of the
  granule.
\<close>

definition cmrMetadataOf :: "cmrFile list \<Rightarrow> string \<Rightarrow> jv" where
  "cmrMetadataOf cmrFiles gid =
     (case find (\<lambda>c. cmr_granuleId c = gid) cmrFiles of
        None \<Rightarrow> JObj []
      | Some c \<Rightarrow> metadataObject c)"

text \<open>
  The body of the inner loop of \<^verbatim>\<open>updateGranuleMetadata\<close>: the destination of one
  file of the granule under the key \<open>gid\<close>. \<^verbatim>\<open>path.join\<close> throws on an argument
  that is not a string, which \<^verbatim>\<open>bucket.name\<close> is not when the bucket is the
  prototype object.
\<close>

definition resolveDestination ::
  "externals \<Rightarrow> collection \<Rightarrow> cmrFile list \<Rightarrow> (string \<times> bucket) list
     \<Rightarrow> string \<Rightarrow> stagedFile granule \<Rightarrow> stagedFile \<Rightarrow> error + bucketRef gfile" where
  "resolveDestination lib collection cmrFiles buckets gid g f =
     (let match = matchingRules lib (coll_files collection) f
      in andThen (validateMatch match buckets) (\<lambda>_.
           case match of
             [] \<Rightarrow> Inl (TypeError ''Cannot read property url_path of undefined'')
           | m # _ \<Rightarrow>
               let template = URLPathTemplate (sf_url_path f) (cf_url_path m) (coll_url_path collection)
               in andThen (urlPathTemplate lib template f g (cmrMetadataOf cmrFiles gid)) (\<lambda>urlPath.
                    case bucketsLookup buckets (cf_bucket m) of
                      Missing \<Rightarrow> Inl (TypeError ''Cannot read property name of undefined'')
                    | FoundPrototype \<Rightarrow> Inl (TypeError ''Path must be a string. Received undefined'')
                    | Found b \<Rightarrow>
                        let fp = pathJoin lib urlPath (sf_name f)
                        in Inr \<lparr>name = sf_name f,
                                bucket = b,
                                filepath = fp,
                                filename = ''s3://'' @ pathJoin lib (bucketRefName b) fp,
                                url_path = sf_url_path f,
                                fileStagingDir = sf_fileStagingDir f,
                                duplicate_found = sf_duplicate_found f,
                                fileSize = sf_fileSize f\<rparr>)))"

text \<open>The granules are visited in the order of \<^verbatim>\<open>Object.keys(granulesObject)\<close>.\<close>

definition updateGranuleMetadata ::
  "externals \<Rightarrow> (string \<times> stagedFile granule) list \<Rightarrow> collection \<Rightarrow> cmrFile list
     \<Rightarrow> (string \<times> bucket) list \<Rightarrow> error + (string \<times> bucketRef gfile granule) list" where
  "updateGranuleMetadata lib granulesObject collection cmrFiles buckets =
     forEach (\<lambda>entry.
        andThen (forEach (resolveDestination lib collection cmrFiles buckets (fst entry) (snd entry))
                   (files (snd entry)))
          (\<lambda>updatedFiles. Inr (fst entry, \<lparr>granuleId = granuleId (snd entry), files = updatedFiles\<rparr>)))
       (ownKeysOrder granulesObject)"

section \<open>Placing one file: \<^verbatim>\<open>moveFileRequest\<close>\<close>

text \<open>\<^verbatim>\<open>file.fileStagingDir || 'file-staging'\<close>\<close>

definition stagingDir :: "bucket gfile \<Rightarrow> string" where
  "stagingDir f = (if truthy (fileStagingDir f) then the (fileStagingDir f) else ''file-staging'')"

definition sourceOf :: "bucket gfile \<Rightarrow> string \<Rightarrow> s3loc" where
  "sourceOf f sourceBucket = (sourceBucket, stagingDir f @ ''/'' @ name f)"

definition targetOf :: "bucket gfile \<Rightarrow> s3loc" where
  "targetOf f = (bkt_name (bucket f), filepath f)"

text \<open>The descriptor of a renamed sibling, as built in the final \<^verbatim>\<open>map\<close>.\<close>

definition renamedDescriptor :: "externals \<Rightarrow> bucket gfile \<Rightarrow> renamed \<Rightarrow> bucket gfile" where
  "renamedDescriptor lib f r =
     \<lparr>name = basename lib (Key r),
      bucket = bucket f,
      filepath = Key r,
      filename = buildS3Uri (Bucket r) (Key r),
      url_path = url_path f,
      fileStagingDir = None,
      duplicate_found = None,
      fileSize = Some (rn_fileSize r)\<rparr>"

text \<open>
  The storage calls of \<^verbatim>\<open>moveFileRequest\<close> between its two early exits and the
  listing of the renamed files.
\<close>

definition placeObject ::
  "externals \<Rightarrow> s3 \<Rightarrow> s3loc \<Rightarrow> s3loc \<Rightarrow> string option \<Rightarrow> bool \<Rightarrow> string \<Rightarrow> unit io" where
  "placeObject lib s source target options s3ObjAlreadyExists duplicateHandling =
     (if s3ObjAlreadyExists \<and> duplicateHandling = ''version'' then
        await (checksumS3Objects lib s target) (\<lambda>existingFileSum s1.
        await (checksumS3Objects lib s1 source) (\<lambda>stagedFileSum s2.
          if existingFileSum = stagedFileSum then (Inr (), deleteS3Object s2 source)
          else
            await (renameS3FileWithTimestamp lib s2 target) (\<lambda>_ s3.
              moveGranuleFile s3 source target options)))
      else moveGranuleFile s source target options)"

definition fileMovedOf :: "'b gfile \<Rightarrow> bool \<Rightarrow> 'b gfile" where
  "fileMovedOf f s3ObjAlreadyExists =
     (if s3ObjAlreadyExists then f\<lparr>fileStagingDir := None, duplicate_found := Some True\<rparr>
      else f\<lparr>fileStagingDir := None\<rparr>)"

definition moveFileRequest ::
  "externals \<Rightarrow> s3 \<Rightarrow> bucket gfile \<Rightarrow> string \<Rightarrow> string \<Rightarrow> bucket gfile list io" where
  "moveFileRequest lib s f sourceBucket duplicateHandling =
     (let source = sourceOf f sourceBucket;
          target = targetOf f;
          s3ObjAlreadyExists = s3ObjectExists s target;
          fileMoved = fileMovedOf f s3ObjAlreadyExists
      in if s3ObjAlreadyExists \<and> duplicateHandling = ''error'' then
           (Inl (DuplicateFile (snd target @ '' already exists in '' @ fst target @ '' bucket'')), s)
         else if s3ObjAlreadyExists \<and> duplicateHandling = ''skip'' then (Inr [fileMoved], s)
         else
           let options = (if matchLiteral (bkt_type (bucket f)) ''public''
                          then Some ''public-read'' else None)
           in await (placeObject lib s source target options s3ObjAlreadyExists duplicateHandling)
                (\<lambda>_ s'.
                   let renamedFiles = (if duplicateHandling = ''version''
                                       then getRenamedS3File lib s' target else [])
                   in (Inr (fileMoved # map (renamedDescriptor lib f) renamedFiles), s')))"

text \<open>
  \<^verbatim>\<open>moveFileRequest\<close> for the files as the resolution leaves them. When the bucket of
  the file is an entry of the bucket map, it is the function above. When it is an
  inherited function, the destination is probed in the bucket named by the function,
  the two early exits are as above, and past them \<^verbatim>\<open>file.bucket.type.match\<close> throws,
  before any call that changes the store.
\<close>

definition moveFileRequestAt ::
  "externals \<Rightarrow> s3 \<Rightarrow> bucketRef gfile \<Rightarrow> string \<Rightarrow> string \<Rightarrow> bucketRef gfile list io" where
  "moveFileRequestAt lib s f sourceBucket duplicateHandling =
     (case bucket f of
        BucketEntry b \<Rightarrow>
          await (moveFileRequest lib s (rebucket (\<lambda>_. b) f) sourceBucket duplicateHandling)
            (\<lambda>fs s'. (Inr (map (rebucket BucketEntry) fs), s'))
      | InheritedFunction n \<Rightarrow>
          let target = (n, filepath f);
              s3ObjAlreadyExists = s3ObjectExists s target;
              fileMoved = fileMovedOf f s3ObjAlreadyExists
          in if s3ObjAlreadyExists \<and> duplicateHandling = ''error'' then
               (Inl (DuplicateFile (snd target @ '' already exists in '' @ fst target @ '' bucket'')), s)
             else if s3ObjAlreadyExists \<and> duplicateHandling = ''skip'' then (Inr [fileMoved], s)
             else (Inl (TypeError ''Cannot read property match of undefined''), s))"

section \<open>Moving the files of all granules\<close>

text \<open>
  The granules are visited in the order of \<^verbatim>\<open>Object.keys(granulesObject)\<close>; the
  files of a granule are replaced only when all its moves have resolved.
\<close>

definition moveFilesOfGranule ::
  "externals \<Rightarrow> string \<Rightarrow> string \<Rightarrow> string \<times> bucketRef gfile granule \<Rightarrow> s3
     \<Rightarrow> (string \<times> bucketRef gfile granule) io" where
  "moveFilesOfGranule lib sourceBucket duplicateHandling entry s =
     (let g = snd entry;
          filesToMove = filter (\<lambda>f. \<not> cmrFileFormat (name f)) (files g);
          cmrFile = filter (\<lambda>f. cmrFileFormat (name f)) (files g)
      in await (promiseAll (\<lambda>f s1. moveFileRequestAt lib s1 f sourceBucket duplicateHandling)
                  filesToMove s)
           (\<lambda>filesMoved s2. (Inr (fst entry, g\<lparr>files := concat filesMoved @ cmrFile\<rparr>), s2)))"

definition moveFilesForAllGranules ::
  "externals \<Rightarrow> s3 \<Rightarrow> (string \<times> bucketRef gfile granule) list \<Rightarrow> string \<Rightarrow> string
     \<Rightarrow> (string \<times> bucketRef gfile granule) list io" where
  "moveFilesForAllGranules lib s granulesObject sourceBucket duplicateHandling =
     promiseAll (moveFilesOfGranule lib sourceBucket duplicateHandling)
       (ownKeysOrder granulesObject) s"

section \<open>Rewriting the catalog metadata: \<^verbatim>\<open>updateCmrFileAccessURLs\<close>\<close>

definition urlObj :: "string \<Rightarrow> jv" where
  "urlObj u = JObj [(''URL'', JStr u), (''URLDescription'', JStr ''File to download'')]"

text \<open>What the loop over \<^verbatim>\<open>granule.files\<close> pushes onto \<^verbatim>\<open>urls\<close> for one file.\<close>

definition accessURLOf :: "externals \<Rightarrow> string \<Rightarrow> bucket gfile \<Rightarrow> jv list" where
  "accessURLOf lib distEndpoint f =
     (if matchLiteral (bkt_type (bucket f)) ''protected'' then
        [urlObj (urljoin lib distEndpoint (urljoin lib (bkt_name (bucket f)) (filepath f)))]
      else if matchLiteral (bkt_type (bucket f)) ''public'' then
        [urlObj (''https://'' @ bkt_name (bucket f) @ ''.s3.amazonaws.com/'' @ filepath f)]
      else [])"

definition onlineAccessURLs :: "externals \<Rightarrow> string \<Rightarrow> bucket gfile list \<Rightarrow> jv list" where
  "onlineAccessURLs lib distEndpoint fs = concat (map (accessURLOf lib distEndpoint) fs)"

text \<open>
  \<^verbatim>\<open>target[k] = v\<close> on an object or an array sets the property; on a string it
  throws, the file being in strict mode.
\<close>

definition setField :: "string \<Rightarrow> jv \<Rightarrow> jv \<Rightarrow> error + jv" where
  "setField k v target =
     (case target of
        JObj ps \<Rightarrow> Inr (JObj (setProp k v ps))
      | JArr xs ps \<Rightarrow> Inr (JArr xs (setProp k v ps))
      | JStr cs \<Rightarrow> Inl (TypeError (''Cannot create property '' @ k @ '' on string'')))"

text \<open>
  The body of the loop over \<^verbatim>\<open>Object.keys(metadataGranule)\<close>, and the assignment
  \<^verbatim>\<open>updatedGranule.OnlineAccessURLs.OnlineAccessURL = urls\<close>, which throws when
  \<^verbatim>\<open>updatedGranule\<close> has no \<^verbatim>\<open>OnlineAccessURLs\<close>.
\<close>

definition copyKey :: "(string \<times> jv) list \<Rightarrow> string \<times> jv \<Rightarrow> (string \<times> jv) list" where
  "copyKey updatedGranule p =
     setProp (fst p) (snd p)
       (if fst p = ''OnlineResources'' \<or> fst p = ''Orderable''
        then setProp ''OnlineAccessURLs'' (JObj []) updatedGranule
        else updatedGranule)"

definition setOnlineAccessURL :: "jv list \<Rightarrow> (string \<times> jv) list \<Rightarrow> error + (string \<times> jv) list" where
  "setOnlineAccessURL urls updatedGranule =
     (case map_of updatedGranule ''OnlineAccessURLs'' of
        None \<Rightarrow> Inl (TypeError ''Cannot set property OnlineAccessURL of undefined'')
      | Some a \<Rightarrow>
          andThen (setField ''OnlineAccessURL'' (JArr urls []) a)
            (\<lambda>a'. Inr (setProp ''OnlineAccessURLs'' a' updatedGranule)))"

text \<open>
  Lines 284 to 293: \<^verbatim>\<open>get(cmrFile, 'metadataObject.Granule')\<close> is undefined unless the
  metadata has that property, and \<^verbatim>\<open>Object.keys\<close> of undefined throws; the new
  granule is built from the own properties of the old one and put in its place.
\<close>

definition rewriteMetadata :: "jv list \<Rightarrow> jv \<Rightarrow> error + jv" where
  "rewriteMetadata urls m =
     (case getProp ''Granule'' m of
        None \<Rightarrow> Inl (TypeError ''Cannot convert undefined or null to object'')
      | Some metadataGranule \<Rightarrow>
          andThen (setOnlineAccessURL urls (foldl copyKey [] (ownEntries metadataGranule)))
            (\<lambda>updatedGranule. setField ''Granule'' (JObj updatedGranule) m))"

text \<open>Modelled from the spec: \<^verbatim>\<open>promiseS3Upload\<close>, the "upload-with-tags".\<close>

definition promiseS3Upload :: "s3 \<Rightarrow> s3loc \<Rightarrow> s3object \<Rightarrow> unit io" where
  "promiseS3Upload s loc obj = (Inr (), s3put s loc obj)"

text \<open>
  The loop over \<^verbatim>\<open>granule.files\<close> reads \<^verbatim>\<open>file.bucket.type.match\<close> for every
  file, and throws at the first file whose bucket is not an entry of the bucket map.
\<close>

definition bucketEntries :: "bucketRef gfile list \<Rightarrow> error + bucket gfile list" where
  "bucketEntries fs =
     forEach (\<lambda>f. case bucket f of
                     BucketEntry b \<Rightarrow> Inr (rebucket (\<lambda>_. b) f)
                   | InheritedFunction n \<Rightarrow>
                       Inl (TypeError ''Cannot read property match of undefined'')) fs"

text \<open>Where the rewritten metadata of a catalog file is uploaded, if anywhere.\<close>

definition cmrDestination :: "bucket gfile list \<Rightarrow> s3loc option" where
  "cmrDestination fs =
     map_option (\<lambda>f. (bkt_name (bucket f), filepath f))
       (find (\<lambda>f. cmrFileFormat (filename f)) fs)"

text \<open>
  The body of the \<^verbatim>\<open>map\<close> of \<^verbatim>\<open>updateCmrFileAccessURLs\<close>, for one catalog file.
  \<^verbatim>\<open>granulesObject[cmrFile.granuleId]\<close> is a granule, or a value without
  \<^verbatim>\<open>files\<close>.
\<close>

definition updateCmrFile ::
  "externals \<Rightarrow> (string \<times> bucketRef gfile granule) list \<Rightarrow> string \<Rightarrow> cmrFile \<Rightarrow> s3
     \<Rightarrow> cmrFile io" where
  "updateCmrFile lib granulesObject distEndpoint c s =
     (case map_of granulesObject (cmr_granuleId c) of
        None \<Rightarrow>
          if inheritedKey (cmr_granuleId c)
          then (Inl (TypeError ''Cannot read property forEach of undefined''), s)
          else (Inl (TypeError ''Cannot read property files of undefined''), s)
      | Some g \<Rightarrow>
          (case bucketEntries (files g) of
             Inl e \<Rightarrow> (Inl e, s)
           | Inr fs \<Rightarrow>
               let urls = onlineAccessURLs lib distEndpoint fs
               in case rewriteMetadata urls (metadataObject c) of
                    Inl e \<Rightarrow> (Inl e, s)
                  | Inr m \<Rightarrow>
                      let xml = buildObject lib m
                      in case find (\<lambda>f. cmrFileFormat (filename f)) fs of
                           None \<Rightarrow> (Inl (TypeError ''Cannot read property bucket of undefined''), s)
                         | Some updatedCmrFile \<Rightarrow>
                             let params =
                                   \<lparr>body = xml,
                                    acl = (if matchLiteral (bkt_type (bucket updatedCmrFile)) ''public''
                                           then Some ''public-read'' else None),
                                    tagging = s3TagSetToQueryString lib (s3Tags c)\<rparr>
                             in await (promiseS3Upload s
                                         (bkt_name (bucket updatedCmrFile), filepath updatedCmrFile)
                                         params)
                                  (\<lambda>_ s1.
                                     case parseS3Uri lib (cmr_filename c) of
                                       Inl e \<Rightarrow> (Inl e, s1)
                                     | Inr old \<Rightarrow>
                                         (Inr (c\<lparr>metadataObject := m, metadata := xml\<rparr>),
                                          deleteS3Object s1 old))))"

definition updateCmrFileAccessURLs ::
  "externals \<Rightarrow> s3 \<Rightarrow> cmrFile list \<Rightarrow> (string \<times> bucketRef gfile granule) list \<Rightarrow> string
     \<Rightarrow> cmrFile list io" where
  "updateCmrFileAccessURLs lib s cmrFiles granulesObject distEndpoint =
     promiseAll (updateCmrFile lib granulesObject distEndpoint) cmrFiles s"

section \<open>The duplicate-handling policy: \<^verbatim>\<open>duplicateHandlingType\<close>\<close>

text \<open>\<^verbatim>\<open>get(object, path, default)\<close>: the default when the path resolves to undefined.\<close>

definition getOr :: "'a option \<Rightarrow> 'a \<Rightarrow> 'a" where
  "getOr v d = (case v of None \<Rightarrow> d | Some x \<Rightarrow> x)"

definition duplicateHandlingType :: "event \<Rightarrow> string" where
  "duplicateHandlingType ev =
     (let config = ev_config ev;
          collection = ev_collection ev;
          duplicateHandling =
            getOr (Option.bind config cfg_duplicateHandling)
              (getOr (Option.bind collection coll_duplicateHandling) ''error'');
          force = getOr (forceDuplicateOverwrite ev) False
      in if force = True then ''replace'' else duplicateHandling)"

text \<open>
  The resolution as the specification words it: the force flag, then the task
  configuration, then the configuration of the collection (which the input envelope
  carries as \<^verbatim>\<open>config.collection\<close>), then \<^verbatim>\<open>error\<close>.
\<close>

definition specifiedPolicy :: "event \<Rightarrow> string" where
  "specifiedPolicy ev =
     (if forceDuplicateOverwrite ev = Some True then ''replace''
      else case Option.bind (ev_config ev) cfg_duplicateHandling of
             Some d \<Rightarrow> d
           | None \<Rightarrow>
               (case Option.bind (ev_config ev) (\<lambda>c. coll_duplicateHandling (cfg_collection c)) of
                  Some d \<Rightarrow> d
                | None \<Rightarrow> ''error''))"

section \<open>The task: \<^verbatim>\<open>moveGranules\<close>\<close>

definition collapseBucket :: "bucketRef gfile \<Rightarrow> string gfile" where
  "collapseBucket f = rebucket bucketRefName f"

definition outputGranules ::
  "(string \<times> bucketRef gfile granule) list \<Rightarrow> string gfile granule list" where
  "outputGranules movedGranules =
     map (\<lambda>entry. \<lparr>granuleId = granuleId (snd entry),
                   files = map collapseBucket (files (snd entry))\<rparr>)
       (ownKeysOrder movedGranules)"

text \<open>
  The block guarded by \<^verbatim>\<open>moveStagedFiles\<close>: \<^verbatim>\<open>movedGranules\<close> is declared without
  a value and assigned inside the block only, so it is still undefined (\<open>None\<close>) when
  the block is skipped.
\<close>

definition moveAndPublish ::
  "externals \<Rightarrow> s3 \<Rightarrow> bool \<Rightarrow> (string \<times> bucketRef gfile granule) list \<Rightarrow> cmrFile list
     \<Rightarrow> string \<Rightarrow> string \<Rightarrow> string \<Rightarrow> (string \<times> bucketRef gfile granule) list option io" where
  "moveAndPublish lib s moveStaged targetedGranules cmrFiles sourceBucket duplicateHandling distEndpoint =
     (if moveStaged then
        await (moveFilesForAllGranules lib s targetedGranules sourceBucket duplicateHandling)
          (\<lambda>movedGranules s1.
             await (updateCmrFileAccessURLs lib s1 cmrFiles movedGranules distEndpoint)
               (\<lambda>_ s2. (Inr (Some movedGranules), s2)))
      else (Inr None, s))"

text \<open>
  \<^verbatim>\<open>get(config, 'input_granules', {})\<close> defaults to an object, which has no
  \<^verbatim>\<open>forEach\<close>; \<^verbatim>\<open>config.collection\<close> throws when there is no \<^verbatim>\<open>config\<close>.
\<close>

definition moveGranules :: "externals \<Rightarrow> s3 \<Rightarrow> event \<Rightarrow> string gfile granule list io" where
  "moveGranules lib s ev =
     (case ev_config ev of
        None \<Rightarrow> (Inl (TypeError ''Cannot read property collection of undefined''), s)
      | Some config \<Rightarrow>
          let rx = getOr (granuleIdExtraction config) ''(.*)'';
              moveStaged = getOr (moveStagedFiles config) True;
              collection = cfg_collection config;
              duplicateHandling = duplicateHandlingType ev;
              input = ev_input ev
          in case getCmrFiles lib s input rx of
               Inl e \<Rightarrow> (Inl e, s)
             | Inr cmrFiles \<Rightarrow>
                 (case andThen (case input_granules config of
                                  None \<Rightarrow> Inl (TypeError ''granules.forEach is not a function'')
                                | Some inputGranules \<Rightarrow>
                                    addInputFilesToGranules lib input inputGranules rx)
                         (\<lambda>allGranules.
                            updateGranuleMetadata lib allGranules collection cmrFiles
                              (cfg_buckets config)) of
                    Inl e \<Rightarrow> (Inl e, s)
                  | Inr targetedGranules \<Rightarrow>
                      await (moveAndPublish lib s moveStaged targetedGranules cmrFiles
                               (cfg_bucket config) duplicateHandling (distribution_endpoint config))
                        (\<lambda>movedGranules s1.
                           case movedGranules of
                             None \<Rightarrow>
                               (Inl (TypeError ''Cannot convert undefined or null to object''), s1)
                           | Some mg \<Rightarrow> (Inr (outputGranules mg), s1))))"

section \<open>The specification's wording of the template precedence\<close>

text \<open>
  "First defined wins": the file-level override, then the template of the matched rule,
  then the default of the collection, then the empty string.
\<close>

definition firstDefined :: "string option \<Rightarrow> string option \<Rightarrow> string option \<Rightarrow> string" where
  "firstDefined file_url_path match_url_path collection_url_path =
     (case file_url_path of
        Some t \<Rightarrow> t
      | None \<Rightarrow>
          (case match_url_path of
             Some t \<Rightarrow> t
           | None \<Rightarrow> (case collection_url_path of Some t \<Rightarrow> t | None \<Rightarrow> [])))"

text \<open>An empty template read as no template at all.\<close>

definition nonEmpty :: "string option \<Rightarrow> string option" where
  "nonEmpty v = (if v = Some [] then None else v)"

section \<open>Sample inputs\<close>

text \<open>
  Stand-ins for the library functions, for evaluating the model on concrete inputs: the
  checksum of a content is its length, a file name matches a rule when the rule's text
  occurs in it, a template expands to itself, every staged file belongs to granule
  \<^verbatim>\<open>G1\<close>, and every staged file named \<^verbatim>\<open>*.cmr.xml\<close> is a catalog file with the
  metadata \<open>exMetadata\<close>.
\<close>

definition exParseS3Uri :: "string \<Rightarrow> error + s3loc" where
  "exParseS3Uri uri =
     (if prefix ''s3://'' uri then
        Inr (takeWhile (\<lambda>c. c \<noteq> CHR ''/'') (drop 5 uri),
             drop 1 (dropWhile (\<lambda>c. c \<noteq> CHR ''/'') (drop 5 uri)))
      else Inl (S3Error ''uri must be a S3 uri''))"

definition exMetadata :: jv where
  "exMetadata =
     JObj [(''Granule'', JObj [(''GranuleUR'', JStr ''G1''), (''OnlineResources'', JStr '''')])]"

definition exCmrFileOf :: "string \<Rightarrow> cmrFile" where
  "exCmrFileOf uri =
     \<lparr>cmr_filename = uri, cmr_granuleId = ''G1'', metadataObject = exMetadata,
      s3Tags = [], metadata = []\<rparr>"

definition exLib :: externals where
  "exLib =
     \<lparr>checksum = length,
      versionMarker = ''.v'',
      versionSuffix = ''20181107T101500000'',
      basename = (\<lambda>p. rev (takeWhile (\<lambda>c. c \<noteq> CHR ''/'') (rev p))),
      pathJoin = (\<lambda>a b. if a = [] then b else a @ ''/'' @ b),
      urljoin = (\<lambda>a b. a @ ''/'' @ b),
      regexMatch = matchLiteral,
      unversionFilename = (\<lambda>n. n),
      urlPathTemplate = (\<lambda>t f g m. Inr t),
      getGranuleId = (\<lambda>f rx. Inr ''G1''),
      getCmrFiles = (\<lambda>s input rx. Inr (map exCmrFileOf (filter cmrFileFormat input))),
      parseS3Uri = exParseS3Uri,
      buildObject = (\<lambda>m. ''<Granule/>''),
      s3TagSetToQueryString = (\<lambda>ts. [])\<rparr>"

definition protectedBucket :: bucket where
  "protectedBucket = \<lparr>bkt_name = ''prot'', bkt_type = ''protected''\<rparr>"

definition publicBucket :: bucket where
  "publicBucket = \<lparr>bkt_name = ''pub'', bkt_type = ''public''\<rparr>"

definition internalBucket :: bucket where
  "internalBucket = \<lparr>bkt_name = ''internal'', bkt_type = ''internal''\<rparr>"

definition exBuckets :: "(string \<times> bucket) list" where
  "exBuckets = [(''protected'', protectedBucket), (''public'', publicBucket),
                (''internal'', internalBucket)]"

definition exObject :: "string \<Rightarrow> s3object" where
  "exObject content = \<lparr>body = content, acl = None, tagging = []\<rparr>"

text \<open>The data file \<^verbatim>\<open>A.hdf\<close>, resolved to \<^verbatim>\<open>prot/coll/A.hdf\<close>, and three stores.\<close>

definition exFile :: "bucket gfile" where
  "exFile =
     \<lparr>name = ''A.hdf'', bucket = protectedBucket, filepath = ''coll/A.hdf'',
      filename = ''s3://prot/coll/A.hdf'', url_path = None, fileStagingDir = None,
      duplicate_found = None, fileSize = None\<rparr>"

definition exStoreSame :: s3 where
  "exStoreSame =
     [((''prot'', ''coll/A.hdf''), exObject ''data''),
      ((''internal'', ''file-staging/A.hdf''), exObject ''data'')]"

definition exStoreDiffer :: s3 where
  "exStoreDiffer =
     [((''prot'', ''coll/A.hdf''), exObject ''old''),
      ((''internal'', ''file-staging/A.hdf''), exObject ''newer'')]"


text \<open>Staged files and rules for the resolution of destinations.\<close>

definition exStaged :: "string \<Rightarrow> string option \<Rightarrow> stagedFile" where
  "exStaged n t =
     \<lparr>sf_name = n, sf_bucket = ''internal'', sf_filename = ''s3://internal/file-staging/'' @ n,
      sf_url_path = t, sf_fileStagingDir = None, sf_duplicate_found = None,
      sf_fileSize = None\<rparr>"

definition exRule :: "string \<Rightarrow> string \<Rightarrow> string option \<Rightarrow> collectionFile" where
  "exRule rx b t = \<lparr>cf_regex = rx, cf_bucket = b, cf_url_path = t\<rparr>"

definition exCollection :: "collectionFile list \<Rightarrow> collection" where
  "exCollection rules =
     \<lparr>coll_files = rules, coll_url_path = None, coll_duplicateHandling = Some ''skip''\<rparr>"

text \<open>
  An event whose collection keeps its catalog files where they are staged, one that
  asks for a dry run, and one whose only duplicate-handling setting is that of its
  collection (\<^verbatim>\<open>skip\<close>, see \<open>exCollection\<close>).
\<close>

definition exConfig :: "collectionFile list \<Rightarrow> config" where
  "exConfig rules =
     \<lparr>cfg_bucket = ''internal'',
      cfg_buckets = exBuckets,
      granuleIdExtraction = None,
      input_granules = Some [\<lparr>granuleId = ''G1'', files = []\<rparr>],
      distribution_endpoint = ''https://dist'',
      cfg_collection = exCollection rules,
      moveStagedFiles = None,
      cfg_duplicateHandling = None\<rparr>"

definition exEvent :: "config \<Rightarrow> string list \<Rightarrow> event" where
  "exEvent c uris =
     \<lparr>ev_config = Some c, ev_collection = None, forceDuplicateOverwrite = None,
      ev_input = uris\<rparr>"

definition exEventInPlace :: event where
  "exEventInPlace =
     exEvent (exConfig [exRule ''.cmr.xml'' ''internal'' (Some ''file-staging'')])
       [''s3://internal/file-staging/G1.cmr.xml'']"

definition exStoreInPlace :: s3 where
  "exStoreInPlace = [((''internal'', ''file-staging/G1.cmr.xml''), exObject ''<Granule/>'')]"

definition exEventDryRun :: event where
  "exEventDryRun =
     exEvent ((exConfig [exRule ''.hdf'' ''protected'' (Some ''coll'')])\<lparr>moveStagedFiles := Some False\<rparr>)
       [''s3://internal/file-staging/A.hdf'']"

definition exEventCollectionPolicy :: event where
  "exEventCollectionPolicy = exEvent (exConfig [exRule ''.hdf'' ''protected'' None]) []"





section \<open>Facts about the store\<close>

lemma s3get_delete:
  "s3get (deleteS3Object s loc) l = (if l = loc then None else s3get s l)"
  by (induction s) (auto simp: s3get_def deleteS3Object_def)

lemma s3get_put:
  "s3get (s3put s loc obj) l = (if l = loc then Some obj else s3get s l)"
  using s3get_delete [of s loc l] by (simp add: s3put_def s3get_def)













section \<open>The \<^verbatim>\<open>error\<close> policy\<close>

text \<open>
  C2. When the destination already exists and the policy is \<^verbatim>\<open>error\<close>,
  \<^verbatim>\<open>moveFileRequest\<close> rejects with \<^verbatim>\<open>DuplicateFile\<close>, whose message names the
  colliding key and bucket, and the store it leaves is the store it was given: neither
  the destination nor the staged source is touched.
\<close>

theorem error_policy_throws_DuplicateFile:
  assumes "s3ObjectExists s (targetOf f)"
  shows "moveFileRequest lib s f sourceBucket ''error'' =
           (Inl (DuplicateFile (filepath f @ '' already exists in '' @ bkt_name (bucket f) @ '' bucket'')), s)"
  using assms by (simp add: moveFileRequest_def Let_def targetOf_def)

theorem error_policy_witness:
  "s3ObjectExists exStoreSame (targetOf exFile)
   \<and> moveFileRequest exLib exStoreSame exFile ''internal'' ''error'' =
       (Inl (DuplicateFile ''coll/A.hdf already exists in prot bucket''), exStoreSame)"
proof -
  have ex: "s3ObjectExists exStoreSame (targetOf exFile)"
    by (simp add: s3ObjectExists_def s3get_def exStoreSame_def targetOf_def exFile_def protectedBucket_def)
  from error_policy_throws_DuplicateFile [OF ex, of exLib "''internal''"]
  show ?thesis using ex
    by (simp add: exFile_def protectedBucket_def)
qed

section \<open>The \<^verbatim>\<open>skip\<close> policy\<close>

text \<open>
  C7. When the destination already exists and the policy is \<^verbatim>\<open>skip\<close>,
  \<^verbatim>\<open>moveFileRequest\<close> returns the one descriptor of the file, with
  \<^verbatim>\<open>duplicate_found\<close> set to true, and the store it leaves is the store it was
  given: the staged source is not moved, the destination is unchanged, nothing is
  deleted.
\<close>

theorem skip_policy_leaves_everything:
  assumes "s3ObjectExists s (targetOf f)"
  shows "moveFileRequest lib s f sourceBucket ''skip'' =
           (Inr [f\<lparr>fileStagingDir := None, duplicate_found := Some True\<rparr>], s)"
  using assms by (simp add: moveFileRequest_def Let_def fileMovedOf_def)

theorem skip_policy_witness:
  "s3ObjectExists exStoreSame (targetOf exFile)
   \<and> moveFileRequest exLib exStoreSame exFile ''internal'' ''skip'' =
       (Inr [exFile\<lparr>duplicate_found := Some True\<rparr>], exStoreSame)"
proof -
  have ex: "s3ObjectExists exStoreSame (targetOf exFile)"
    by (simp add: s3ObjectExists_def s3get_def exStoreSame_def targetOf_def exFile_def protectedBucket_def)
  from skip_policy_leaves_everything [OF ex, of exLib "''internal''"]
  show ?thesis using ex by (simp add: exFile_def)
qed

section \<open>The storage calls of a placement\<close>



lemma placeObject_succeeds:
  assumes "s3get s source \<noteq> None" and "ex \<longrightarrow> s3get s target \<noteq> None"
  shows "\<exists>s'. placeObject lib s source target options ex dh = (Inr (), s')"
proof (cases "ex \<and> dh = ''version''")
  case False
  then show ?thesis using assms(1)
    by (auto simp: placeObject_def moveGranuleFile_def)
next
  case True
  then obtain t ob where t: "s3get s target = Some t" and o: "s3get s source = Some ob"
    using assms by auto
  show ?thesis
  proof (cases "checksum lib (body t) = checksum lib (body ob)")
    case True
    then show ?thesis using t o \<open>ex \<and> dh = ''version''\<close>
      by (simp add: placeObject_def checksumS3Objects_def await_def)
  next
    case False
    then have st: "source \<noteq> target" using t o by auto
    have "s3get (deleteS3Object (s3put s (fst target, renamedKey lib s target) (t\<lparr>acl := None\<rparr>)) target) source
            \<noteq> None"
      using st o by (simp add: s3get_delete s3get_put)
    then show ?thesis
      using t o False \<open>ex \<and> dh = ''version''\<close>
      by (auto simp: placeObject_def checksumS3Objects_def await_def renameS3FileWithTimestamp_def
          moveGranuleFile_def)
  qed
qed



lemma moveFileRequest_head:
  assumes "moveFileRequest lib s f sourceBucket dh = (Inr fs, s')"
  shows "\<exists>extras. fs = fileMovedOf f (s3ObjectExists s (targetOf f)) # extras"
proof -
  obtain r s1 where
    "placeObject lib s (sourceOf f sourceBucket) (targetOf f)
       (if matchLiteral (bkt_type (bucket f)) ''public'' then Some ''public-read'' else None)
       (s3ObjectExists s (targetOf f)) dh = (r, s1)"
    by (cases "placeObject lib s (sourceOf f sourceBucket) (targetOf f)
       (if matchLiteral (bkt_type (bucket f)) ''public'' then Some ''public-read'' else None)
       (s3ObjectExists s (targetOf f)) dh")
  with assms show ?thesis
    by (cases r) (auto simp: moveFileRequest_def Let_def await_def split: if_splits)
qed

section \<open>The \<^verbatim>\<open>duplicate_found\<close> flag\<close>

text \<open>
  C10. When the destination already exists and the policy is \<^verbatim>\<open>skip\<close>,
  \<^verbatim>\<open>replace\<close> or \<^verbatim>\<open>version\<close> (whatever the checksums), every list of
  descriptors that \<^verbatim>\<open>moveFileRequest\<close> returns starts with the descriptor of the
  moved file, with \<^verbatim>\<open>duplicate_found\<close> set to true; and it does return one under
  \<^verbatim>\<open>skip\<close>, and under the other two policies whenever the staged source exists.
\<close>

theorem duplicate_found_on_every_existing_destination:
  assumes ex: "s3ObjectExists s (targetOf f)"
    and dh: "dh \<in> {''skip'', ''replace'', ''version''}"
  shows "(\<forall>fs s'. moveFileRequest lib s f sourceBucket dh = (Inr fs, s') \<longrightarrow>
            fs \<noteq> [] \<and> hd fs = f\<lparr>fileStagingDir := None, duplicate_found := Some True\<rparr>
            \<and> duplicate_found (hd fs) = Some True)
       \<and> (dh = ''skip'' \<or> s3ObjectExists s (sourceOf f sourceBucket) \<longrightarrow>
            (\<exists>fs s'. moveFileRequest lib s f sourceBucket dh = (Inr fs, s')))"
proof (intro conjI allI impI)
  fix fs s'
  assume r: "moveFileRequest lib s f sourceBucket dh = (Inr fs, s')"
  from moveFileRequest_head [OF r] ex
  have "fs \<noteq> [] \<and> hd fs = f\<lparr>fileStagingDir := None, duplicate_found := Some True\<rparr>"
    by (auto simp: fileMovedOf_def)
  then show "fs \<noteq> []" and "hd fs = f\<lparr>fileStagingDir := None, duplicate_found := Some True\<rparr>"
    and "duplicate_found (hd fs) = Some True"
    by simp_all
next
  assume a: "dh = ''skip'' \<or> s3ObjectExists s (sourceOf f sourceBucket)"
  show "\<exists>fs s'. moveFileRequest lib s f sourceBucket dh = (Inr fs, s')"
  proof (cases "dh = ''skip''")
    case True
    then show ?thesis using ex by (simp add: moveFileRequest_def Let_def)
  next
    case False
    then have src: "s3get s (sourceOf f sourceBucket) \<noteq> None"
      using a by (simp add: s3ObjectExists_def)
    have tg: "s3get s (targetOf f) \<noteq> None" using ex by (simp add: s3ObjectExists_def)
    from placeObject_succeeds [of s "sourceOf f sourceBucket" True "targetOf f" lib _ dh] src tg
    obtain s1 where "placeObject lib s (sourceOf f sourceBucket) (targetOf f)
             (if matchLiteral (bkt_type (bucket f)) ''public'' then Some ''public-read'' else None)
             True dh = (Inr (), s1)"
      by blast
    moreover have "dh \<noteq> ''error''" using dh by auto
    ultimately show ?thesis using ex False
      by (simp add: moveFileRequest_def Let_def await_def)
  qed
qed

theorem duplicate_found_witness:
  "s3ObjectExists exStoreDiffer (targetOf exFile)
   \<and> s3ObjectExists exStoreDiffer (sourceOf exFile ''internal'')
   \<and> (\<exists>fs s'. moveFileRequest exLib exStoreDiffer exFile ''internal'' ''skip'' = (Inr fs, s')
                 \<and> duplicate_found (hd fs) = Some True)
   \<and> (\<exists>fs s'. moveFileRequest exLib exStoreDiffer exFile ''internal'' ''replace'' = (Inr fs, s')
                 \<and> duplicate_found (hd fs) = Some True)
   \<and> (\<exists>fs s'. moveFileRequest exLib exStoreDiffer exFile ''internal'' ''version'' = (Inr fs, s')
                 \<and> duplicate_found (hd fs) = Some True)"
proof -
  have ex: "s3ObjectExists exStoreDiffer (targetOf exFile)"
    by (simp add: s3ObjectExists_def s3get_def exStoreDiffer_def targetOf_def exFile_def protectedBucket_def)
  have src: "s3ObjectExists exStoreDiffer (sourceOf exFile ''internal'')"
    by (simp add: s3ObjectExists_def s3get_def exStoreDiffer_def sourceOf_def stagingDir_def
        truthy_def exFile_def)
  have "\<exists>fs s'. moveFileRequest exLib exStoreDiffer exFile ''internal'' dh = (Inr fs, s')
                 \<and> duplicate_found (hd fs) = Some True"
    if "dh \<in> {''skip'', ''replace'', ''version''}" for dh
    using duplicate_found_on_every_existing_destination [OF ex that, of exLib "''internal''"] src
    by blast
  from this [of "''skip''"] this [of "''replace''"] this [of "''version''"]
  show ?thesis using ex src by simp
qed

section \<open>The \<^verbatim>\<open>version\<close> policy\<close>




section \<open>The duplicate-handling policy\<close>

lemma duplicateHandlingType_eq:
  "duplicateHandlingType ev =
     (if forceDuplicateOverwrite ev = Some True then ''replace''
      else case Option.bind (ev_config ev) cfg_duplicateHandling of
             Some d \<Rightarrow> d
           | None \<Rightarrow>
               (case Option.bind (ev_collection ev) coll_duplicateHandling of
                  Some d \<Rightarrow> d
                | None \<Rightarrow> ''error''))"
  by (auto simp: duplicateHandlingType_def getOr_def Let_def split: option.splits)

text \<open>The collection inside the configuration has no part in the result.\<close>

lemma duplicateHandlingType_ignores_config_collection:
  "duplicateHandlingType (ev\<lparr>ev_config := Some (c\<lparr>cfg_collection := x\<rparr>)\<rparr>) =
   duplicateHandlingType (ev\<lparr>ev_config := Some (c\<lparr>cfg_collection := y\<rparr>)\<rparr>)"
  by (auto simp: duplicateHandlingType_eq split: option.splits)

text \<open>
  C3 fails on the code. \<^verbatim>\<open>duplicateHandlingType\<close> reads the collection from
  \<^verbatim>\<open>event.collection\<close>, not from \<^verbatim>\<open>event.config.collection\<close> where the
  envelope (and the function's own documentation) has it. For an event with no force
  flag and no task-level setting, whose collection configuration asks for
  \<^verbatim>\<open>skip\<close>, the specified policy is \<^verbatim>\<open>skip\<close> and the code answers
  \<^verbatim>\<open>error\<close>.
\<close>

theorem collection_policy_not_consulted:
  "Option.bind (ev_config exEventCollectionPolicy) (\<lambda>c. coll_duplicateHandling (cfg_collection c))
     = Some ''skip''
   \<and> forceDuplicateOverwrite exEventCollectionPolicy = None
   \<and> Option.bind (ev_config exEventCollectionPolicy) cfg_duplicateHandling = None
   \<and> specifiedPolicy exEventCollectionPolicy = ''skip''
   \<and> duplicateHandlingType exEventCollectionPolicy = ''error''"
  by (simp add: duplicateHandlingType_eq specifiedPolicy_def exEventCollectionPolicy_def
      exEvent_def exConfig_def exCollection_def)

section \<open>Resolution of destinations\<close>

lemma validateMatch_many:
  "length match > 1 \<Longrightarrow>
   validateMatch match buckets =
     Inl (InvalidArgument ''File ([object Object]) matched more than one collection.regexp.'')"
  by (simp add: validateMatch_def)

lemma validateMatch_none:
  "validateMatch [] buckets =
     Inl (InvalidArgument ''File ([object Object]) did not match any collection.regexp.'')"
  by (simp add: validateMatch_def)

lemma validateMatch_one:
  "validateMatch [m] buckets =
     (if bucketsLookup buckets (cf_bucket m) = Missing then
        Inl (InvalidArgument (''Collection config specifies a bucket key of '' @ cf_bucket m
               @ '', but the configured bucket keys are: ''
               @ joinWith '', '' (map fst (ownKeysOrder buckets))))
      else Inr ())"
  by (simp add: validateMatch_def)

lemma validateMatch_ok:
  "validateMatch match buckets = Inr u \<Longrightarrow>
   \<exists>m. match = [m] \<and> bucketsLookup buckets (cf_bucket m) \<noteq> Missing"
  by (cases match; cases "tl match")
     (auto simp: validateMatch_def split: if_splits)

lemma bucketsLookup_own:
  "map_of buckets k = Some b \<Longrightarrow> bucketsLookup buckets k = Found (BucketEntry b)"
  by (simp add: bucketsLookup_def)

lemma bucketsLookup_Missing:
  "bucketsLookup buckets k = Missing \<longleftrightarrow> map_of buckets k = None \<and> \<not> inheritedKey k"
  by (auto simp: bucketsLookup_def inheritedKey_def split: option.splits)

lemma resolveDestination_one:
  assumes "matchingRules lib (coll_files collection) f = [m]"
    and "bucketsLookup buckets (cf_bucket m) = Found b"
  shows "resolveDestination lib collection cmrFiles buckets gid g f =
     (case urlPathTemplate lib
             (URLPathTemplate (sf_url_path f) (cf_url_path m) (coll_url_path collection))
             f g (cmrMetadataOf cmrFiles gid) of
        Inl e \<Rightarrow> Inl e
      | Inr urlPath \<Rightarrow>
          Inr \<lparr>name = sf_name f,
               bucket = b,
               filepath = pathJoin lib urlPath (sf_name f),
               filename = ''s3://'' @ pathJoin lib (bucketRefName b) (pathJoin lib urlPath (sf_name f)),
               url_path = sf_url_path f,
               fileStagingDir = sf_fileStagingDir f,
               duplicate_found = sf_duplicate_found f,
               fileSize = sf_fileSize f\<rparr>)"
  using assms
  by (simp add: resolveDestination_def validateMatch_one andThen_def Let_def split: sum.splits)

lemma resolveDestination_ok:
  assumes "resolveDestination lib collection cmrFiles buckets gid g f = Inr d"
  shows "\<exists>m. matchingRules lib (coll_files collection) f = [m]
             \<and> bucketsLookup buckets (cf_bucket m) = Found (bucket d)
             \<and> (\<exists>p. urlPathTemplate lib
                        (URLPathTemplate (sf_url_path f) (cf_url_path m) (coll_url_path collection))
                        f g (cmrMetadataOf cmrFiles gid) = Inr p
                      \<and> filepath d = pathJoin lib p (sf_name f))"
proof -
  obtain u where "validateMatch (matchingRules lib (coll_files collection) f) buckets = Inr u"
    using assms
    by (cases "validateMatch (matchingRules lib (coll_files collection) f) buckets")
       (simp_all add: resolveDestination_def andThen_def Let_def)
  from validateMatch_ok [OF this] obtain m where
    m: "matchingRules lib (coll_files collection) f = [m]" by blast
  from assms m show ?thesis
    by (auto simp: resolveDestination_def validateMatch_one andThen_def Let_def
        split: sum.splits lookup.splits if_splits)
qed

text \<open>
  What holds of the claim: several matching rules, no matching rule, and a bucket key
  that neither the bucket map nor \<^verbatim>\<open>Object.prototype\<close> has each give their own
  \<^verbatim>\<open>InvalidArgument\<close>, and a destination comes from exactly one matching rule.
\<close>

lemma resolveDestination_errors:
  "(length (matchingRules lib (coll_files collection) f) > 1 \<longrightarrow>
      resolveDestination lib collection cmrFiles buckets gid g f =
        Inl (InvalidArgument ''File ([object Object]) matched more than one collection.regexp.''))
   \<and> (matchingRules lib (coll_files collection) f = [] \<longrightarrow>
      resolveDestination lib collection cmrFiles buckets gid g f =
        Inl (InvalidArgument ''File ([object Object]) did not match any collection.regexp.''))
   \<and> (\<forall>m. matchingRules lib (coll_files collection) f = [m]
            \<and> map_of buckets (cf_bucket m) = None \<and> \<not> inheritedKey (cf_bucket m) \<longrightarrow>
      resolveDestination lib collection cmrFiles buckets gid g f =
        Inl (InvalidArgument (''Collection config specifies a bucket key of '' @ cf_bucket m
               @ '', but the configured bucket keys are: ''
               @ joinWith '', '' (map fst (ownKeysOrder buckets)))))"
  by (simp add: resolveDestination_def validateMatch_many validateMatch_none validateMatch_one
      bucketsLookup_Missing andThen_def Let_def)

text \<open>
  C4. The claim fails of the code for a bucket key that the bucket map does not have but
  every plain object inherits. The collection has the one rule \<^verbatim>\<open>.hdf\<close> with the
  bucket key \<^verbatim>\<open>constructor\<close>, and the bucket map has the keys \<^verbatim>\<open>protected\<close>,
  \<^verbatim>\<open>public\<close> and \<^verbatim>\<open>internal\<close>. The one rule matches \<^verbatim>\<open>A.hdf\<close>, its bucket
  key is absent from the bucket map, and resolving the destination does not fail:
  \<^verbatim>\<open>buckets['constructor']\<close> is the function \<^verbatim>\<open>Object\<close>, which is truthy and whose
  \<^verbatim>\<open>name\<close> is \<^verbatim>\<open>Object\<close>, so the file is given the destination
  \<^verbatim>\<open>s3://Object/A.hdf\<close>.
\<close>

theorem inherited_bucket_key_is_resolved:
  "matchingRules exLib (coll_files (exCollection [exRule ''.hdf'' ''constructor'' None]))
         (exStaged ''A.hdf'' None) = [exRule ''.hdf'' ''constructor'' None]
   \<and> map_of exBuckets (cf_bucket (exRule ''.hdf'' ''constructor'' None)) = None
   \<and> resolveDestination exLib (exCollection [exRule ''.hdf'' ''constructor'' None])
         [] exBuckets ''G1'' \<lparr>granuleId = ''G1'', files = []\<rparr> (exStaged ''A.hdf'' None) =
       Inr \<lparr>name = ''A.hdf'', bucket = InheritedFunction ''Object'', filepath = ''A.hdf'',
            filename = ''s3://Object/A.hdf'', url_path = None, fileStagingDir = None,
            duplicate_found = None, fileSize = None\<rparr>"
  by (simp add: resolveDestination_def matchingRules_def validateMatch_def bucketsLookup_def
      bucketRefName_def URLPathTemplate_def jsOr_def cmrMetadataOf_def truthy_def Let_def
      andThen_def exLib_def exStaged_def exRule_def exCollection_def exBuckets_def
      protectedBucket_def publicBucket_def internalBucket_def)

section \<open>The path template\<close>

text \<open>
  C8, as amended. The template applied is the first defined and non-empty of the
  file-level \<^verbatim>\<open>url_path\<close>, the \<^verbatim>\<open>url_path\<close> of the matched rule and the
  \<^verbatim>\<open>url_path\<close> of the collection, and the empty string when there is none; it is the
  template that a successful resolution has expanded into the path of the destination.
\<close>

theorem template_first_non_empty:
  "URLPathTemplate fu mu cu = firstDefined (nonEmpty fu) (nonEmpty mu) (nonEmpty cu)
   \<and> (\<forall>d. resolveDestination lib collection cmrFiles buckets gid g f = Inr d \<longrightarrow>
        (\<exists>m p. matchingRules lib (coll_files collection) f = [m]
               \<and> urlPathTemplate lib
                    (firstDefined (nonEmpty (sf_url_path f)) (nonEmpty (cf_url_path m))
                       (nonEmpty (coll_url_path collection)))
                    f g (cmrMetadataOf cmrFiles gid) = Inr p
               \<and> filepath d = pathJoin lib p (sf_name f)))"
proof -
  have eq: "URLPathTemplate a b c = firstDefined (nonEmpty a) (nonEmpty b) (nonEmpty c)" for a b c
    by (cases a; cases b; cases c)
       (auto simp: URLPathTemplate_def jsOr_def truthy_def firstDefined_def nonEmpty_def)
  show ?thesis
    using resolveDestination_ok [of lib collection cmrFiles buckets gid g f]
    by (auto simp: eq)
qed

theorem template_witness:
  "resolveDestination exLib (exCollection [exRule ''.hdf'' ''protected'' (Some ''rule'')])
         [] exBuckets ''G1'' \<lparr>granuleId = ''G1'', files = []\<rparr> (exStaged ''A.hdf'' (Some [])) =
       Inr \<lparr>name = ''A.hdf'', bucket = BucketEntry protectedBucket, filepath = ''rule/A.hdf'',
            filename = ''s3://prot/rule/A.hdf'', url_path = Some [], fileStagingDir = None,
            duplicate_found = None, fileSize = None\<rparr>
   \<and> firstDefined (nonEmpty (Some [])) (nonEmpty (Some ''rule'')) (nonEmpty None) = ''rule''"
  using template_first_non_empty
          [of "Some []" "Some ''rule''" None exLib
              "exCollection [exRule ''.hdf'' ''protected'' (Some ''rule'')]" "[]" exBuckets "''G1''"
              "\<lparr>granuleId = ''G1'', files = []\<rparr>" "exStaged ''A.hdf'' (Some [])"]
  by (simp add: resolveDestination_def matchingRules_def validateMatch_def bucketsLookup_def
      bucketRefName_def URLPathTemplate_def jsOr_def cmrMetadataOf_def truthy_def Let_def andThen_def firstDefined_def
      nonEmpty_def exLib_def exStaged_def exRule_def exCollection_def exBuckets_def
      protectedBucket_def publicBucket_def internalBucket_def)

text \<open>
  C8 as stated fails: a file-level \<^verbatim>\<open>url_path\<close> that is defined but empty does not
  win; the template of the matched rule is applied.
\<close>

theorem template_first_defined_counterexample:
  "URLPathTemplate (Some []) (Some ''rule'') None = ''rule''
   \<and> firstDefined (Some []) (Some ''rule'') None = []"
  by (simp add: URLPathTemplate_def jsOr_def truthy_def firstDefined_def)

section \<open>The access URLs\<close>













section \<open>The dry run\<close>

lemma dry_run_throws:
  assumes "ev_config ev = Some config" and "moveStagedFiles config = Some False"
  shows "\<exists>e. moveGranules lib s ev = (Inl e, s)"
  using assms
  by (auto simp: moveGranules_def moveAndPublish_def getOr_def await_def Let_def
      split: sum.splits option.splits)

text \<open>
  C5 fails on the code. With \<^verbatim>\<open>moveStagedFiles\<close> set to false the task moves no
  file and rewrites no catalog file (the store is left as it was), but it does not
  return the granules: \<^verbatim>\<open>movedGranules\<close> is assigned only inside the skipped block,
  and \<^verbatim>\<open>Object.keys(movedGranules)\<close> throws a \<^verbatim>\<open>TypeError\<close>. Here the planning
  phase succeeds (one file, one matching rule, a known bucket).
\<close>

theorem dry_run_throws_TypeError:
  "Option.bind (ev_config exEventDryRun) moveStagedFiles = Some False
   \<and> moveGranules exLib exStoreDiffer exEventDryRun =
       (Inl (TypeError ''Cannot convert undefined or null to object''), exStoreDiffer)"
  by (simp add: moveGranules_def moveAndPublish_def duplicateHandlingType_def getOr_def await_def
      andThen_def addInputFilesToGranules_def addInputFile_def fileObjectFromS3URI_def
      granulesHashOf_def filesHashOf_def updateGranuleMetadata_def cmrFileFormat_def
      resolveDestination_def matchingRules_def validateMatch_def URLPathTemplate_def jsOr_def
      cmrMetadataOf_def truthy_def Let_def bucketsLookup_def bucketRefName_def ownKeysOrder_def
      arrayIndex_def isDigit_def inheritedKey_def exLib_def exRule_def exCollection_def exBuckets_def
      protectedBucket_def publicBucket_def internalBucket_def exEvent_def exConfig_def
      exParseS3Uri_def exEventDryRun_def)

section \<open>Upload, then delete\<close>

text \<open>
  When the rewrite of a catalog file succeeds, the store it leaves is the store given,
  with the new metadata written at the destination of the catalog file and then the
  object at the old location deleted, in that order.
\<close>

lemma updateCmrFile_store:
  assumes "updateCmrFile lib granulesObject dist c s = (Inr c', s')"
  shows "\<exists>g fs f old. map_of granulesObject (cmr_granuleId c) = Some g
           \<and> bucketEntries (files g) = Inr fs
           \<and> find (\<lambda>f. cmrFileFormat (filename f)) fs = Some f
           \<and> parseS3Uri lib (cmr_filename c) = Inr old
           \<and> s' = deleteS3Object
                     (s3put s (bkt_name (bucket f), filepath f)
                        \<lparr>body = metadata c',
                         acl = (if matchLiteral (bkt_type (bucket f)) ''public''
                                then Some ''public-read'' else None),
                         tagging = s3TagSetToQueryString lib (s3Tags c)\<rparr>)
                     old"
proof -
  from assms obtain g where g: "map_of granulesObject (cmr_granuleId c) = Some g"
    by (auto simp: updateCmrFile_def split: option.splits if_splits)
  from assms g obtain fs where fs: "bucketEntries (files g) = Inr fs"
    by (cases "bucketEntries (files g)") (auto simp: updateCmrFile_def)
  from assms g fs obtain m where
    m: "rewriteMetadata (onlineAccessURLs lib dist fs) (metadataObject c) = Inr m"
    by (cases "rewriteMetadata (onlineAccessURLs lib dist fs) (metadataObject c)")
       (auto simp: updateCmrFile_def Let_def)
  from assms g fs m obtain f where
    f: "find (\<lambda>f. cmrFileFormat (filename f)) fs = Some f"
    by (cases "find (\<lambda>f. cmrFileFormat (filename f)) fs")
       (auto simp: updateCmrFile_def Let_def)
  from assms g fs m f show ?thesis
    by (cases "parseS3Uri lib (cmr_filename c)")
       (auto simp: updateCmrFile_def promiseS3Upload_def await_def Let_def)
qed

lemma relocated_catalog_file_survives:
  assumes "updateCmrFile lib granulesObject dist c s = (Inr c', s')"
    and "map_of granulesObject (cmr_granuleId c) = Some g"
    and "bucketEntries (files g) = Inr fs"
    and "cmrDestination fs = Some dest"
    and "parseS3Uri lib (cmr_filename c) = Inr old"
    and "dest \<noteq> old"
  shows "map_option body (s3get s' dest) = Some (metadata c') \<and> s3get s' old = None"
  using updateCmrFile_store [OF assms(1)] assms(2-6)
  by (auto simp: s3get_delete s3get_put cmrDestination_def)

text \<open>
  C9 fails on the code. A collection that keeps its catalog files where they are staged
  resolves \<^verbatim>\<open>G1.cmr.xml\<close> to the key it already has. The rewrite uploads the new
  metadata to that key and then deletes the old catalog file, which is the same
  object: the task succeeds and no copy of the catalog file is left in the store.
\<close>

theorem catalog_file_in_place_is_deleted:
  "s3ObjectExists exStoreInPlace (''internal'', ''file-staging/G1.cmr.xml'')
   \<and> moveGranules exLib exStoreInPlace exEventInPlace =
       (Inr [\<lparr>granuleId = ''G1'',
               files = [\<lparr>name = ''G1.cmr.xml'', bucket = ''internal'',
                         filepath = ''file-staging/G1.cmr.xml'',
                         filename = ''s3://internal/file-staging/G1.cmr.xml'',
                         url_path = None, fileStagingDir = None, duplicate_found = None,
                         fileSize = None\<rparr>]\<rparr>],
        [])"
  by (simp add: moveGranules_def moveAndPublish_def duplicateHandlingType_def getOr_def await_def
      andThen_def addInputFilesToGranules_def addInputFile_def fileObjectFromS3URI_def
      granulesHashOf_def filesHashOf_def updateGranuleMetadata_def cmrFileFormat_def
      resolveDestination_def matchingRules_def validateMatch_def URLPathTemplate_def jsOr_def
      cmrMetadataOf_def truthy_def Let_def moveFilesForAllGranules_def moveFilesOfGranule_def
      updateCmrFileAccessURLs_def updateCmrFile_def rewriteMetadata_def setOnlineAccessURL_def
      copyKey_def onlineAccessURLs_def accessURLOf_def promiseS3Upload_def outputGranules_def
      collapseBucket_def rebucket_def bucketRefName_def bucketsLookup_def bucketEntries_def
      ownKeysOrder_def ownEntries_def arrayIndex_def isDigit_def inheritedKey_def objectPrototypeMethods_def setField_def
      getProp_def settle_def s3ObjectExists_def s3get_def s3put_def deleteS3Object_def exLib_def
      exRule_def exCollection_def exBuckets_def protectedBucket_def publicBucket_def
      internalBucket_def exEvent_def exConfig_def exParseS3Uri_def exMetadata_def
      exCmrFileOf_def exObject_def exEventInPlace_def exStoreInPlace_def)

end
